theory Spec2Isabelle
  imports Main "HOL-Library.AList"
begin

section \<open>Clinical management system: billing engine and appointment scheduler\<close>

text \<open>
  A shallow embedding of \<^verbatim>\<open>billing/models.py\<close> (class \<^verbatim>\<open>Billing\<close>) and of
  \<^verbatim>\<open>receptionist/models.py\<close> (class \<^verbatim>\<open>Appointment\<close>).

  Conventions.
  \<^item> A model instance is a record; the primary key is \<open>None\<close> until the first insert.
  \<^item> The tables (\<^verbatim>\<open>Model.objects\<close>) are lists of rows inside one \<open>database\<close> record; every
    method that reads or writes a table takes the database and returns the new one.
  \<^item> \<^verbatim>\<open>timezone.now()\<close> and \<^verbatim>\<open>date.today()\<close> are the parameter \<open>now\<close> and its date part.
  \<^item> An exception is a value of type \<open>error\<close>; a method that can raise returns
    \<open>error + result\<close>, and nothing is written to the database on the \<open>Inl\<close> side.
  \<^item> A \<^verbatim>\<open>DecimalField(max_digits=10, decimal_places=2)\<close> holds an exact decimal with two
    places; it is the integer number of hundredths (\<open>300.00\<close> is \<open>30000\<close>). Sums and
    differences of such values are exact in Python's \<^verbatim>\<open>Decimal\<close>.
\<close>

subsection \<open>Dates and times (Python's \<^verbatim>\<open>datetime\<close> module)\<close>

record date =
  year :: nat
  month :: nat
  day :: nat

record time =
  hour :: nat
  minute :: nat
  second :: nat

record datetime =
  date_part :: date
  time_part :: time

definition is_leap :: "nat \<Rightarrow> bool" where
  "is_leap y = (y mod 4 = 0 \<and> (y mod 100 \<noteq> 0 \<or> y mod 400 = 0))"

definition days_in_month :: "nat \<Rightarrow> nat \<Rightarrow> nat" where
  "days_in_month y m =
     (if m = 2 then (if is_leap y then 29 else 28)
      else if m = 4 \<or> m = 6 \<or> m = 9 \<or> m = 11 then 30 else 31)"


text \<open>Comparison of dates and of times is lexicographic on the fields.\<close>

definition date_lt :: "date \<Rightarrow> date \<Rightarrow> bool" where
  "date_lt a b =
     (year a < year b \<or> (year a = year b \<and>
       (month a < month b \<or> (month a = month b \<and> day a < day b))))"

definition time_le :: "time \<Rightarrow> time \<Rightarrow> bool" where
  "time_le a b =
     (hour a < hour b \<or> (hour a = hour b \<and>
       (minute a < minute b \<or> (minute a = minute b \<and> second a \<le> second b))))"

definition next_day :: "date \<Rightarrow> date" where
  "next_day d =
     (if day d < days_in_month (year d) (month d) then d\<lparr>day := day d + 1\<rparr>
      else if month d < 12 then d\<lparr>month := month d + 1, day := 1\<rparr>
      else d\<lparr>year := year d + 1, month := 1, day := 1\<rparr>)"

datatype error =
    ValidationError "(string \<times> string) list"
  | DoesNotExist
  | OverflowError

text \<open>
  \<^verbatim>\<open>d + timedelta(days=n)\<close> for \<open>n \<ge> 0\<close>: the date \<open>n\<close> days later; Python raises
  \<^verbatim>\<open>OverflowError\<close> when the result is past year 9999.
\<close>

definition add_days :: "date \<Rightarrow> nat \<Rightarrow> error + date" where
  "add_days d n =
     (let r = (next_day ^^ n) d in if year r > 9999 then Inl OverflowError else Inr r)"

text \<open>
  \<^verbatim>\<open>d + relativedelta(months=+k)\<close> (dateutil): the month moves \<open>k\<close> forward, the year
  follows, and the day is cut down to the last day of the new month.
\<close>

definition add_months :: "date \<Rightarrow> nat \<Rightarrow> date" where
  "add_months d k =
     (let t = (month d - 1) + k;
          y = year d + t div 12;
          m = t mod 12 + 1
      in \<lparr>year = y, month = m, day = min (day d) (days_in_month y m)\<rparr>)"

subsection \<open>String formatting\<close>

fun str_nat :: "nat \<Rightarrow> string" where
  "str_nat n =
     (if n < 10 then [''0123456789'' ! n]
      else str_nat (n div 10) @ [''0123456789'' ! (n mod 10)])"

declare str_nat.simps [simp del]

definition zfill :: "nat \<Rightarrow> string \<Rightarrow> string" where
  "zfill w s = replicate (w - length s) (CHR ''0'') @ s"

text \<open>\<^verbatim>\<open>f"{n:04d}"\<close>: decimal, padded with zeros on the left to at least four digits.\<close>

definition format_04d :: "nat \<Rightarrow> string" where
  "format_04d n = zfill 4 (str_nat n)"

text \<open>\<^verbatim>\<open>d.strftime('%Y%m%d')\<close>.\<close>

definition strftime_Ymd :: "date \<Rightarrow> string" where
  "strftime_Ymd d = zfill 4 (str_nat (year d)) @ zfill 2 (str_nat (month d)) @ zfill 2 (str_nat (day d))"




subsection \<open>Tables\<close>

text \<open>
  Money is of type \<open>int\<close>, in hundredths. The \<^verbatim>\<open>CharField\<close>s with choices (statuses,
  priority, payment method, role) are strings, as in the source. Fields that no method
  modelled here reads or validates (\<^verbatim>\<open>prescription\<close>, \<^verbatim>\<open>lab_requests\<close>, the bill's
  \<^verbatim>\<open>created_by\<close>, the appointment's \<^verbatim>\<open>symptoms\<close> and \<^verbatim>\<open>notes\<close>) are left out. The two
  models share the field names \<^verbatim>\<open>pk\<close> and \<^verbatim>\<open>patient\<close>; the appointment's are
  \<open>appt_pk\<close> and \<open>appt_patient\<close> here, and the bill's \<^verbatim>\<open>notes\<close> is \<open>bill_notes\<close>. A foreign key is the key of the row it points to.
\<close>

record patient =
  patient_pk :: nat
  is_active :: bool

record staff =
  staff_pk :: nat
  full_name :: string
  role :: string

record billing =
  pk :: "nat option"
  patient :: nat
  bill_number :: string
  consultation_fee :: int
  medicine_cost :: int
  lab_cost :: int
  other_charges :: int
  discount :: int
  tax_amount :: int
  total_amount :: int
  amount_paid :: int
  balance_due :: int
  payment_status :: string
  payment_method :: "string option"
  billing_date :: date
  due_date :: "date option"
  payment_date :: "datetime option"
  bill_notes :: string
  created_at :: datetime

record appointment =
  appt_pk :: "nat option"
  appt_patient :: nat
  doctor :: nat
  appointment_date :: date
  appointment_time :: time
  purpose :: string
  status :: string
  priority :: string
  created_by :: "nat option"
  estimated_duration :: "int option"
  actual_duration :: "int option"
  check_in_time :: "datetime option"
  check_out_time :: "datetime option"

record database =
  patients :: "patient list"
  staffs :: "staff list"
  billings :: "billing list"
  appointments :: "appointment list"

text \<open>The key an insert assigns: one more than the largest key of the table.\<close>

definition fresh_pk :: "nat option list \<Rightarrow> nat" where
  "fresh_pk ks = Suc (foldr max (map (\<lambda>k. case k of None \<Rightarrow> 0 | Some n \<Rightarrow> n) ks) 0)"

text \<open>\<^verbatim>\<open>errors[key] = message\<close> on the dictionary \<^verbatim>\<open>errors\<close> of a \<^verbatim>\<open>clean\<close> method.\<close>

abbreviation dict_set :: "string \<Rightarrow> string \<Rightarrow> (string \<times> string) list \<Rightarrow> (string \<times> string) list" where
  "dict_set k v errors \<equiv> AList.update k v errors"

text \<open>
  A \<^verbatim>\<open>ValidationError\<close> carries its entries as pairs of a field name and a message.
  One raised from a plain string has the single key \<^verbatim>\<open>__all__\<close>. An entry that a
  validator of the framework makes (not a \<^verbatim>\<open>clean\<close> method of the repository) has the
  framework's error code as its message.
\<close>

definition is_validation_error :: "error + 'a \<Rightarrow> bool" where
  "is_validation_error r = (case r of Inl (ValidationError es) \<Rightarrow> True | _ \<Rightarrow> False)"

subsection \<open>Billing (\<^verbatim>\<open>billing/models.py\<close>)\<close>

definition PAYMENT_METHOD_CHOICES :: "string list" where
  "PAYMENT_METHOD_CHOICES = [''CASH'', ''CARD'', ''UPI'', ''INSURANCE'', ''OTHER'']"

definition PAYMENT_STATUS_CHOICES :: "string list" where
  "PAYMENT_STATUS_CHOICES = [''PENDING'', ''PAID'', ''PARTIAL'', ''CANCELLED'']"

text \<open>
  \<^verbatim>\<open>DecimalValidator(10, 2)\<close> on a value with two decimal places: at most eight digits
  before the point.
\<close>

definition decimal_ok :: "int \<Rightarrow> bool" where
  "decimal_ok v = (- 10000000000 < v \<and> v < 10000000000)"

definition decimal_errors :: "string \<Rightarrow> int \<Rightarrow> (string \<times> string) list" where
  "decimal_errors field v = (if decimal_ok v then [] else [(field, ''max_digits'')])"

text \<open>
  \<^verbatim>\<open>Model.clean_fields\<close> for a bill: every field's own validators, in the order the fields
  are declared. The patient must exist; \<^verbatim>\<open>bill_number\<close> has \<^verbatim>\<open>max_length=20\<close>; a blank
  (\<^verbatim>\<open>None\<close> or empty) payment method is skipped, any other must be one of the choices.
\<close>

definition Billing_clean_fields :: "database \<Rightarrow> billing \<Rightarrow> (string \<times> string) list" where
  "Billing_clean_fields db self =
     (if list_ex (\<lambda>p. patient_pk p = patient self) (patients db) then [] else [(''patient'', ''invalid'')]) @
     (if length (bill_number self) > 20 then [(''bill_number'', ''max_length'')] else []) @
     decimal_errors ''consultation_fee'' (consultation_fee self) @
     decimal_errors ''medicine_cost'' (medicine_cost self) @
     decimal_errors ''lab_cost'' (lab_cost self) @
     decimal_errors ''other_charges'' (other_charges self) @
     decimal_errors ''discount'' (discount self) @
     decimal_errors ''tax_amount'' (tax_amount self) @
     decimal_errors ''total_amount'' (total_amount self) @
     decimal_errors ''amount_paid'' (amount_paid self) @
     decimal_errors ''balance_due'' (balance_due self) @
     (if payment_status self \<in> set PAYMENT_STATUS_CHOICES then [] else [(''payment_status'', ''invalid_choice'')]) @
     (case payment_method self of
        None \<Rightarrow> []
      | Some m \<Rightarrow> if m = [] \<or> m \<in> set PAYMENT_METHOD_CHOICES then [] else [(''payment_method'', ''invalid_choice'')])"

definition Billing_clean :: "billing \<Rightarrow> error + unit" where
  "Billing_clean self =
     (let errors = [];
          errors = (if consultation_fee self < 0
                    then dict_set ''consultation_fee'' ''Consultation fee cannot be negative'' errors else errors);
          errors = (if medicine_cost self < 0
                    then dict_set ''medicine_cost'' ''Medicine cost cannot be negative'' errors else errors);
          errors = (if lab_cost self < 0
                    then dict_set ''lab_cost'' ''Lab cost cannot be negative'' errors else errors);
          errors = (if other_charges self < 0
                    then dict_set ''other_charges'' ''Other charges cannot be negative'' errors else errors);
          errors = (if discount self < 0
                    then dict_set ''discount'' ''Discount cannot be negative'' errors else errors);
          errors = (if tax_amount self < 0
                    then dict_set ''tax_amount'' ''Tax amount cannot be negative'' errors else errors);
          errors = (if amount_paid self > total_amount self
                    then dict_set ''amount_paid'' ''Amount paid cannot exceed total amount'' errors else errors)
      in if errors \<noteq> [] then Inl (ValidationError errors) else Inr ())"

text \<open>
  \<^verbatim>\<open>Model.validate_unique\<close>: \<^verbatim>\<open>bill_number\<close> is \<^verbatim>\<open>unique=True\<close>. The row of the instance
  itself is not compared, and the check is skipped when the field already has an error.
\<close>

definition Billing_validate_unique :: "database \<Rightarrow> string list \<Rightarrow> billing \<Rightarrow> (string \<times> string) list" where
  "Billing_validate_unique db exclude self =
     (if ''bill_number'' \<in> set exclude then []
      else if list_ex (\<lambda>r. bill_number r = bill_number self \<and> pk r \<noteq> pk self) (billings db)
      then [(''bill_number'', ''unique'')] else [])"

text \<open>
  \<^verbatim>\<open>Model.full_clean\<close>: field validation, then \<^verbatim>\<open>clean()\<close> (run even when a field failed),
  then the uniqueness checks; all entries are raised together.
\<close>

definition Billing_full_clean :: "database \<Rightarrow> billing \<Rightarrow> error + unit" where
  "Billing_full_clean db self =
     (let field_errors = Billing_clean_fields db self;
          clean_errors = (case Billing_clean self of Inl (ValidationError es) \<Rightarrow> es | _ \<Rightarrow> []);
          unique_errors = Billing_validate_unique db (map fst (field_errors @ clean_errors)) self;
          errors = field_errors @ clean_errors @ unique_errors
      in if errors \<noteq> [] then Inl (ValidationError errors) else Inr ())"

text \<open>
  \<^verbatim>\<open>super().save()\<close>: an instance without a key is inserted under a fresh key; one with a
  key replaces the row of that key (and is inserted when there is none).
\<close>

definition Billing_super_save :: "database \<Rightarrow> billing \<Rightarrow> billing \<times> database" where
  "Billing_super_save db self =
     (case pk self of
        None \<Rightarrow>
          (let self = self\<lparr>pk := Some (fresh_pk (map pk (billings db)))\<rparr>
           in (self, db\<lparr>billings := billings db @ [self]\<rparr>))
      | Some k \<Rightarrow>
          (if list_ex (\<lambda>r. pk r = Some k) (billings db)
           then (self, db\<lparr>billings := map (\<lambda>r. if pk r = Some k then self else r) (billings db)\<rparr>)
           else (self, db\<lparr>billings := billings db @ [self]\<rparr>)))"

definition generate_bill_number :: "datetime \<Rightarrow> database \<Rightarrow> string" where
  "generate_bill_number now db =
     (let today = date_part now;
          date_str = strftime_Ymd today;
          today_bills_count = length (filter (\<lambda>r. date_part (created_at r) = today) (billings db));
          sequence = today_bills_count + 1
      in ''BILL-'' @ date_str @ ''-'' @ format_04d sequence)"

definition update_payment_status :: "datetime \<Rightarrow> billing \<Rightarrow> billing" where
  "update_payment_status now self =
     (if amount_paid self = 0 then self\<lparr>payment_status := ''PENDING''\<rparr>
      else if amount_paid self \<ge> total_amount self
      then self\<lparr>payment_status := ''PAID'', payment_date := Some now\<rparr>
      else if amount_paid self > 0 then self\<lparr>payment_status := ''PARTIAL''\<rparr>
      else self\<lparr>payment_status := ''PENDING''\<rparr>)"

definition calculate_total :: "datetime \<Rightarrow> billing \<Rightarrow> billing" where
  "calculate_total now self =
     (let subtotal = consultation_fee self + medicine_cost self + lab_cost self + other_charges self;
          discounted_amount = subtotal - discount self;
          self = self\<lparr>total_amount := discounted_amount + tax_amount self\<rparr>;
          self = (if total_amount self < 0 then self\<lparr>total_amount := 0\<rparr> else self);
          self = self\<lparr>balance_due := total_amount self - amount_paid self\<rparr>
      in update_payment_status now self)"

definition Billing_save :: "datetime \<Rightarrow> database \<Rightarrow> billing \<Rightarrow> error + billing \<times> database" where
  "Billing_save now db self =
     (let self = (if bill_number self = [] then self\<lparr>bill_number := generate_bill_number now db\<rparr> else self);
          self = calculate_total now self
      in case (case due_date self of
                 None \<Rightarrow> (case add_days (billing_date self) 15 of
                             Inl e \<Rightarrow> Inl e
                           | Inr d \<Rightarrow> Inr (self\<lparr>due_date := Some d\<rparr>))
               | Some _ \<Rightarrow> Inr self) of
           Inl e \<Rightarrow> Inl e
         | Inr self \<Rightarrow>
             (case Billing_full_clean db self of
                Inl e \<Rightarrow> Inl e
              | Inr _ \<Rightarrow> Inr (Billing_super_save db self)))"





text \<open>The row of a table that has a given key.\<close>

definition Billing_get :: "database \<Rightarrow> nat \<Rightarrow> billing option" where
  "Billing_get db k = find (\<lambda>r. pk r = Some k) (billings db)"

subsection \<open>Appointment (\<^verbatim>\<open>receptionist/models.py\<close>)\<close>

definition STATUS_CHOICES :: "string list" where
  "STATUS_CHOICES = [''SCHEDULED'', ''CONFIRMED'', ''IN_PROGRESS'', ''COMPLETED'', ''CANCELLED'', ''NO_SHOW'']"

definition PRIORITY_CHOICES :: "string list" where
  "PRIORITY_CHOICES = [''LOW'', ''MEDIUM'', ''HIGH'', ''URGENT'']"

text \<open>
  \<^verbatim>\<open>Appointment(...)\<close> with the keyword arguments a booking gives; every other field takes
  the default of its declaration: \<^verbatim>\<open>status\<close> is \<^verbatim>\<open>SCHEDULED\<close>, \<^verbatim>\<open>estimated_duration\<close>
  is 30, the remaining ones are \<^verbatim>\<open>None\<close>.
\<close>

definition Appointment_init ::
  "nat \<Rightarrow> nat \<Rightarrow> date \<Rightarrow> time \<Rightarrow> string \<Rightarrow> string \<Rightarrow> nat option \<Rightarrow> appointment" where
  "Appointment_init patient_arg doctor_arg date_arg time_arg purpose_arg priority_arg created_by_arg =
     \<lparr>appt_pk = None, appt_patient = patient_arg, doctor = doctor_arg,
      appointment_date = date_arg, appointment_time = time_arg, purpose = purpose_arg,
      status = ''SCHEDULED'', priority = priority_arg, created_by = created_by_arg,
      estimated_duration = Some 30, actual_duration = None,
      check_in_time = None, check_out_time = None\<rparr>"

text \<open>
  \<^verbatim>\<open>Model.clean_fields\<close> for an appointment. A foreign key must point to a row that
  satisfies \<^verbatim>\<open>limit_choices_to\<close>; \<^verbatim>\<open>created_by\<close> is declared \<^verbatim>\<open>null=True\<close> without
  \<^verbatim>\<open>blank=True\<close>, so \<^verbatim>\<open>None\<close> is refused as blank; \<^verbatim>\<open>estimated_duration\<close> is not
  nullable and has the validators \<^verbatim>\<open>MinValueValidator(5)\<close> and \<^verbatim>\<open>MaxValueValidator(180)\<close>,
  which run on every value but \<^verbatim>\<open>None\<close>; \<^verbatim>\<open>actual_duration\<close> may be \<^verbatim>\<open>None\<close> and has
  \<^verbatim>\<open>MinValueValidator(1)\<close>.
\<close>

definition Appointment_clean_fields :: "database \<Rightarrow> appointment \<Rightarrow> (string \<times> string) list" where
  "Appointment_clean_fields db self =
     (if list_ex (\<lambda>p. patient_pk p = appt_patient self) (patients db) then [] else [(''patient'', ''invalid'')]) @
     (if list_ex (\<lambda>s. staff_pk s = doctor self \<and> role s = ''DOCTOR'') (staffs db) then []
      else [(''doctor'', ''invalid'')]) @
     (if purpose self = [] then [(''purpose'', ''blank'')]
      else if length (purpose self) < 5 then [(''purpose'', ''Please describe appointment purpose'')] else []) @
     (if status self = [] then [(''status'', ''blank'')]
      else if status self \<in> set STATUS_CHOICES then [] else [(''status'', ''invalid_choice'')]) @
     (if priority self = [] then [(''priority'', ''blank'')]
      else if priority self \<in> set PRIORITY_CHOICES then [] else [(''priority'', ''invalid_choice'')]) @
     (case created_by self of
        None \<Rightarrow> [(''created_by'', ''blank'')]
      | Some c \<Rightarrow> if list_ex (\<lambda>s. staff_pk s = c \<and> role s = ''RECEPTIONIST'') (staffs db) then []
                  else [(''created_by'', ''invalid'')]) @
     (case estimated_duration self of
        None \<Rightarrow> [(''estimated_duration'', ''null'')]
      | Some d \<Rightarrow> (if d < 5 then [(''estimated_duration'', ''min_value'')] else []) @
                  (if d > 180 then [(''estimated_duration'', ''max_value'')] else [])) @
     (case actual_duration self of
        None \<Rightarrow> []
      | Some d \<Rightarrow> if d < 1 then [(''actual_duration'', ''min_value'')] else [])"

text \<open>
  The two queries of \<^verbatim>\<open>Appointment.clean\<close>. Reading \<^verbatim>\<open>self.doctor\<close>,
  \<^verbatim>\<open>self.created_by\<close> or \<^verbatim>\<open>self.patient\<close> fetches the row and raises \<^verbatim>\<open>DoesNotExist\<close>
  when there is none; a model instance, a date and a time are always true in a condition.
  \<^verbatim>\<open>exclude(pk=self.pk)\<close> removes the row of the instance itself.
\<close>

definition ACTIVE_STATUSES :: "string list" where
  "ACTIVE_STATUSES = [''SCHEDULED'', ''CONFIRMED'', ''IN_PROGRESS'']"

definition conflicting_appointments :: "database \<Rightarrow> appointment \<Rightarrow> appointment list" where
  "conflicting_appointments db self =
     filter (\<lambda>r. doctor r = doctor self \<and> appointment_date r = appointment_date self \<and>
                 appointment_time r = appointment_time self \<and> status r \<in> set ACTIVE_STATUSES \<and>
                 appt_pk r \<noteq> appt_pk self) (appointments db)"

definition daily_appointments :: "database \<Rightarrow> appointment \<Rightarrow> appointment list" where
  "daily_appointments db self =
     filter (\<lambda>r. appt_patient r = appt_patient self \<and> appointment_date r = appointment_date self \<and>
                 appt_pk r \<noteq> appt_pk self) (appointments db)"

definition conflict_message :: "staff \<Rightarrow> string" where
  "conflict_message d = ''Doctor '' @ full_name d @ '' already has an appointment at this time''"

text \<open>The statement \<^verbatim>\<open>if c: errors[k] = v\<close>.\<close>

definition set_if :: "bool \<Rightarrow> string \<Rightarrow> string \<Rightarrow> (string \<times> string) list \<Rightarrow> (string \<times> string) list" where
  "set_if c k v errors = (if c then dict_set k v errors else errors)"

text \<open>
  The checks of \<^verbatim>\<open>Appointment.clean\<close>, in the order of the source, on the rows fetched
  for \<^verbatim>\<open>self.doctor\<close>, \<^verbatim>\<open>self.created_by\<close> (\<open>None\<close> when the field is \<^verbatim>\<open>None\<close>) and
  \<^verbatim>\<open>self.patient\<close>: the result is the dictionary \<^verbatim>\<open>errors\<close>.
\<close>

definition Appointment_clean_errors ::
  "datetime \<Rightarrow> database \<Rightarrow> appointment \<Rightarrow> staff \<Rightarrow> staff option \<Rightarrow> patient \<Rightarrow> (string \<times> string) list" where
  "Appointment_clean_errors now db self self_doctor self_created_by self_patient =
     (let errors = [];
          today = date_part now;
          errors = set_if (date_lt (appointment_date self) today)
                     ''appointment_date'' ''Cannot book appointments in the past'' errors;
          max_future_date = add_months today 6;
          errors = set_if (date_lt max_future_date (appointment_date self))
                     ''appointment_date'' ''Cannot book appointments more than 6 months in advance'' errors;
          start_time = \<lparr>hour = 8, minute = 0, second = 0\<rparr>;
          end_time = \<lparr>hour = 20, minute = 0, second = 0\<rparr>;
          errors = set_if (\<not> (time_le start_time (appointment_time self) \<and>
                               time_le (appointment_time self) end_time))
                     ''appointment_time''
                     ''Appointments can only be scheduled between 8:00 AM and 8:00 PM'' errors;
          errors = set_if (conflicting_appointments db self \<noteq> [])
                     ''__all__'' (conflict_message self_doctor) errors;
          errors = set_if (case self_created_by of None \<Rightarrow> False | Some c \<Rightarrow> role c \<noteq> ''RECEPTIONIST'')
                     ''created_by'' ''Only receptionist staff can create appointments'' errors;
          errors = set_if (length (daily_appointments db self) \<ge> 3)
                     ''patient'' ''Patient cannot have more than 3 appointments per day'' errors;
          errors = set_if (\<not> is_active self_patient)
                     ''patient'' ''Cannot schedule appointment for inactive patient'' errors;
          errors = set_if (case estimated_duration self of
                             None \<Rightarrow> False
                           | Some d \<Rightarrow> d \<noteq> 0 \<and> (d < 5 \<or> d > 180))
                     ''estimated_duration'' ''Estimated duration must be between 5 and 180 minutes'' errors
      in errors)"

text \<open>
  \<^verbatim>\<open>Appointment.clean\<close>. The source fetches each related row where it first reads it, and
  a missing row raises \<^verbatim>\<open>DoesNotExist\<close> there, whatever the dictionary holds by then; so
  the three rows are fetched first here, in the order of their first use, and the checks run
  on them.
\<close>

definition Appointment_clean :: "datetime \<Rightarrow> database \<Rightarrow> appointment \<Rightarrow> error + unit" where
  "Appointment_clean now db self =
     (case find (\<lambda>s. staff_pk s = doctor self) (staffs db) of
        None \<Rightarrow> Inl DoesNotExist
      | Some self_doctor \<Rightarrow>
          (case (case created_by self of
                   None \<Rightarrow> Inr None
                 | Some c \<Rightarrow>
                     (case find (\<lambda>s. staff_pk s = c) (staffs db) of
                        None \<Rightarrow> Inl DoesNotExist
                      | Some r \<Rightarrow> Inr (Some r))) of
             Inl e \<Rightarrow> Inl e
           | Inr self_created_by \<Rightarrow>
               (case find (\<lambda>p. patient_pk p = appt_patient self) (patients db) of
                  None \<Rightarrow> Inl DoesNotExist
                | Some self_patient \<Rightarrow>
                    (let errors = Appointment_clean_errors now db self self_doctor self_created_by self_patient
                     in if errors \<noteq> [] then Inl (ValidationError errors) else Inr ()))))"

text \<open>
  \<^verbatim>\<open>Model.validate_unique\<close> for \<^verbatim>\<open>unique_together = ['doctor', 'appointment_date',
  'appointment_time']\<close>: another row with the same three values is an error, whatever its
  status. The check is skipped when one of the three fields already has an error.
\<close>

definition same_slot :: "appointment \<Rightarrow> appointment \<Rightarrow> bool" where
  "same_slot r self =
     (doctor r = doctor self \<and> appointment_date r = appointment_date self \<and>
      appointment_time r = appointment_time self)"

definition Appointment_validate_unique :: "database \<Rightarrow> string list \<Rightarrow> appointment \<Rightarrow> (string \<times> string) list" where
  "Appointment_validate_unique db exclude self =
     (if ''doctor'' \<in> set exclude \<or> ''appointment_date'' \<in> set exclude \<or> ''appointment_time'' \<in> set exclude
      then []
      else if list_ex (\<lambda>r. same_slot r self \<and> appt_pk r \<noteq> appt_pk self) (appointments db)
      then [(''__all__'', ''unique_together'')] else [])"

definition Appointment_full_clean :: "datetime \<Rightarrow> database \<Rightarrow> appointment \<Rightarrow> error + unit" where
  "Appointment_full_clean now db self =
     (let field_errors = Appointment_clean_fields db self
      in case (case Appointment_clean now db self of
                 Inl (ValidationError es) \<Rightarrow> Inr es
               | Inl e \<Rightarrow> Inl e
               | Inr _ \<Rightarrow> Inr []) of
           Inl e \<Rightarrow> Inl e
         | Inr clean_errors \<Rightarrow>
             (let exclude = filter (\<lambda>name. name \<noteq> ''__all__'') (map fst (field_errors @ clean_errors));
                  unique_errors = Appointment_validate_unique db exclude self;
                  errors = field_errors @ clean_errors @ unique_errors
              in if errors \<noteq> [] then Inl (ValidationError errors) else Inr ()))"

definition Appointment_super_save :: "database \<Rightarrow> appointment \<Rightarrow> appointment \<times> database" where
  "Appointment_super_save db self =
     (case appt_pk self of
        None \<Rightarrow>
          (let self = self\<lparr>appt_pk := Some (fresh_pk (map appt_pk (appointments db)))\<rparr>
           in (self, db\<lparr>appointments := appointments db @ [self]\<rparr>))
      | Some k \<Rightarrow>
          (if list_ex (\<lambda>r. appt_pk r = Some k) (appointments db)
           then (self, db\<lparr>appointments := map (\<lambda>r. if appt_pk r = Some k then self else r) (appointments db)\<rparr>)
           else (self, db\<lparr>appointments := appointments db @ [self]\<rparr>)))"

definition duration_map :: "(string \<times> int) list" where
  "duration_map = [(''LOW'', 15), (''MEDIUM'', 30), (''HIGH'', 45), (''URGENT'', 60)]"

text \<open>\<^verbatim>\<open>not x\<close> for an optional integer: true for \<^verbatim>\<open>None\<close> and for 0.\<close>

definition falsy :: "int option \<Rightarrow> bool" where
  "falsy x = (case x of None \<Rightarrow> True | Some n \<Rightarrow> n = 0)"

definition Appointment_save :: "datetime \<Rightarrow> database \<Rightarrow> appointment \<Rightarrow> error + appointment \<times> database" where
  "Appointment_save now db self =
     (case Appointment_full_clean now db self of
        Inl e \<Rightarrow> Inl e
      | Inr _ \<Rightarrow>
          (let self = (if falsy (estimated_duration self)
                       then self\<lparr>estimated_duration :=
                              Some (case map_of duration_map (priority self) of None \<Rightarrow> 30 | Some d \<Rightarrow> d)\<rparr>
                       else self)
           in Inr (Appointment_super_save db self)))"

definition can_be_cancelled :: "appointment \<Rightarrow> bool" where
  "can_be_cancelled self = (status self \<in> set [''SCHEDULED'', ''CONFIRMED''])"

text \<open>
  The transition operations. One whose guard is false does nothing and returns the
  instance and the database as they are.
\<close>

definition mark_completed ::
  "datetime \<Rightarrow> database \<Rightarrow> appointment \<Rightarrow> int option \<Rightarrow> error + appointment \<times> database" where
  "mark_completed now db self actual_duration_arg =
     (if status self \<noteq> ''COMPLETED''
      then (let self = self\<lparr>status := ''COMPLETED''\<rparr>;
                self = (if \<not> falsy actual_duration_arg then self\<lparr>actual_duration := actual_duration_arg\<rparr>
                        else self);
                self = self\<lparr>check_out_time := Some now\<rparr>
            in Appointment_save now db self)
      else Inr (self, db))"

definition mark_in_progress :: "datetime \<Rightarrow> database \<Rightarrow> appointment \<Rightarrow> error + appointment \<times> database" where
  "mark_in_progress now db self =
     (if status self \<in> set [''SCHEDULED'', ''CONFIRMED'']
      then (let self = self\<lparr>status := ''IN_PROGRESS''\<rparr>;
                self = self\<lparr>check_in_time := Some now\<rparr>
            in Appointment_save now db self)
      else Inr (self, db))"

definition mark_confirmed :: "datetime \<Rightarrow> database \<Rightarrow> appointment \<Rightarrow> error + appointment \<times> database" where
  "mark_confirmed now db self =
     (if status self = ''SCHEDULED''
      then (let self = self\<lparr>status := ''CONFIRMED''\<rparr> in Appointment_save now db self)
      else Inr (self, db))"

definition mark_cancelled :: "datetime \<Rightarrow> database \<Rightarrow> appointment \<Rightarrow> error + appointment \<times> database" where
  "mark_cancelled now db self =
     (if can_be_cancelled self
      then (let self = self\<lparr>status := ''CANCELLED''\<rparr> in Appointment_save now db self)
      else Inr (self, db))"

definition Appointment_get :: "database \<Rightarrow> nat \<Rightarrow> appointment option" where
  "Appointment_get db k = find (\<lambda>r. appt_pk r = Some k) (appointments db)"

subsection \<open>The total as the specification writes it\<close>

text \<open>
  The specification's formula for the total: the four charges, less the discount, plus
  the tax, and never below zero. It is stated apart from \<open>calculate_total\<close>, which is
  compared with it below.
\<close>

definition computed_total :: "billing \<Rightarrow> int" where
  "computed_total self =
     max 0 (consultation_fee self + medicine_cost self + lab_cost self + other_charges self
            - discount self + tax_amount self)"

subsection \<open>Stored rows and example data\<close>

text \<open>A bill is persisted in a database when the row under its key is the bill itself.\<close>

definition persisted :: "database \<Rightarrow> billing \<Rightarrow> bool" where
  "persisted db b = (case pk b of None \<Rightarrow> False | Some k \<Rightarrow> Billing_get db k = Some b)"

text \<open>
  Example data: a clock, a database with one patient, a doctor and a receptionist, the bill
  of the specification's example (300.00 + 150.00 + 0 + 0 - 50.00 + 20.00) before its first
  save, and the same bill and the database after that save.
\<close>

definition now0 :: datetime where
  "now0 = \<lparr>date_part = \<lparr>year = 2026, month = 11, day = 4\<rparr>,
            time_part = \<lparr>hour = 10, minute = 30, second = 0\<rparr>\<rparr>"

definition db0 :: database where
  "db0 = \<lparr>patients = [\<lparr>patient_pk = 1, is_active = True\<rparr>],
          staffs = [\<lparr>staff_pk = 1, full_name = ''Asha Rao'', role = ''DOCTOR''\<rparr>,
                    \<lparr>staff_pk = 2, full_name = ''Ravi Nair'', role = ''RECEPTIONIST''\<rparr>],
          billings = [], appointments = []\<rparr>"

definition bill0 :: billing where
  "bill0 = \<lparr>pk = None, patient = 1, bill_number = [], consultation_fee = 30000, medicine_cost = 15000,
            lab_cost = 0, other_charges = 0, discount = 5000, tax_amount = 2000, total_amount = 0,
            amount_paid = 0, balance_due = 0, payment_status = ''PENDING'', payment_method = None,
            billing_date = \<lparr>year = 2026, month = 11, day = 4\<rparr>, due_date = None, payment_date = None,
            bill_notes = [], created_at = now0\<rparr>"

definition bill1 :: billing where
  "bill1 = bill0\<lparr>pk := Some 1, bill_number := ''BILL-20261104-0001'', total_amount := 42000,
                 balance_due := 42000, due_date := Some \<lparr>year = 2026, month = 11, day = 19\<rparr>\<rparr>"

definition db1 :: database where
  "db1 = db0\<lparr>billings := [bill1]\<rparr>"















subsection \<open>Notions used to state the properties of the scheduler\<close>

text \<open>
  The rows an appointment refers to exist: its doctor, its patient and, when it names one,
  the staff member who created it.
\<close>

definition refs_exist :: "database \<Rightarrow> appointment \<Rightarrow> bool" where
  "refs_exist db self =
     (find (\<lambda>s. staff_pk s = doctor self) (staffs db) \<noteq> None \<and>
      find (\<lambda>p. patient_pk p = appt_patient self) (patients db) \<noteq> None \<and>
      (case created_by self of
         None \<Rightarrow> True
       | Some c \<Rightarrow> find (\<lambda>s. staff_pk s = c) (staffs db) \<noteq> None))"

text \<open>A result is a validation error that carries a given entry.\<close>

definition has_error :: "error + 'a \<Rightarrow> string \<times> string \<Rightarrow> bool" where
  "has_error r e = (case r of Inl (ValidationError es) \<Rightarrow> e \<in> set es | _ \<Rightarrow> False)"

text \<open>An appointment is persisted in a database when the row under its key is the appointment.\<close>

definition appt_persisted :: "database \<Rightarrow> appointment \<Rightarrow> bool" where
  "appt_persisted db a = (case appt_pk a of None \<Rightarrow> False | Some k \<Rightarrow> Appointment_get db k = Some a)"

text \<open>
  Example data for the scheduler: a booking for the day after the clock's date at 9:00,
  before and after its first save; the same appointment cancelled, and then completed; and
  a database in which the patient has three cancelled appointments on that day, with a
  fourth booking for it.
\<close>

definition appt0 :: appointment where
  "appt0 = Appointment_init 1 1 \<lparr>year = 2026, month = 11, day = 5\<rparr> \<lparr>hour = 9, minute = 0, second = 0\<rparr>
             ''Fever and cough'' ''LOW'' (Some 2)"

definition appt1 :: appointment where
  "appt1 = appt0\<lparr>appt_pk := Some 1\<rparr>"

definition dbA1 :: database where
  "dbA1 = db0\<lparr>appointments := [appt1]\<rparr>"

definition appt_c :: appointment where
  "appt_c = appt1\<lparr>status := ''CANCELLED''\<rparr>"


definition appt_done :: appointment where
  "appt_done = appt_c\<lparr>status := ''COMPLETED'', check_out_time := Some now0\<rparr>"

definition dbD :: database where
  "dbD = db0\<lparr>appointments := [appt_done]\<rparr>"

definition db3c :: database where
  "db3c = db0\<lparr>appointments :=
            [appt_c,
             appt_c\<lparr>appt_pk := Some 2, appointment_time := \<lparr>hour = 10, minute = 0, second = 0\<rparr>\<rparr>,
             appt_c\<lparr>appt_pk := Some 3, appointment_time := \<lparr>hour = 11, minute = 0, second = 0\<rparr>\<rparr>]\<rparr>"

definition appt4 :: appointment where
  "appt4 = Appointment_init 1 1 \<lparr>year = 2026, month = 11, day = 5\<rparr> \<lparr>hour = 12, minute = 0, second = 0\<rparr>
             ''Fever and cough'' ''MEDIUM'' (Some 2)"

section \<open>Properties of the billing engine\<close>

subsection \<open>Auxiliary facts\<close>

lemma dict_set_not_Nil: "AList.update k v xs \<noteq> []"
  by (cases xs) auto


lemma update_mem_other: "(k', v') \<in> set al \<Longrightarrow> k' \<noteq> k \<Longrightarrow> (k', v') \<in> set (AList.update k v al)"
  by (induction al) auto

lemma update_mem_D: "(k', v') \<in> set (AList.update k v al) \<Longrightarrow> (k' = k \<and> v' = v) \<or> (k', v') \<in> set al"
  by (induction al) (auto split: if_splits)

lemma Billing_clean_Inr_iff:
  "Billing_clean s = Inr u \<longleftrightarrow>
     (0 \<le> consultation_fee s \<and> 0 \<le> medicine_cost s \<and> 0 \<le> lab_cost s \<and> 0 \<le> other_charges s \<and>
      0 \<le> discount s \<and> 0 \<le> tax_amount s \<and> amount_paid s \<le> total_amount s)"
  unfolding Billing_clean_def Let_def
  by (simp add: dict_set_not_Nil)

lemma Billing_clean_cases:
  "Billing_clean s = Inr () \<or> (\<exists>es. Billing_clean s = Inl (ValidationError es) \<and> es \<noteq> [])"
  unfolding Billing_clean_def Let_def by simp


lemma calculate_total_amounts [simp]:
  "total_amount (calculate_total now s) = computed_total s"
  "balance_due (calculate_total now s) = computed_total s - amount_paid s"
  "amount_paid (calculate_total now s) = amount_paid s"
  by (simp_all add: calculate_total_def update_payment_status_def computed_total_def Let_def max_def)

lemma calculate_total_charges [simp]:
  "consultation_fee (calculate_total now s) = consultation_fee s"
  "medicine_cost (calculate_total now s) = medicine_cost s"
  "lab_cost (calculate_total now s) = lab_cost s"
  "other_charges (calculate_total now s) = other_charges s"
  "discount (calculate_total now s) = discount s"
  "tax_amount (calculate_total now s) = tax_amount s"
  by (simp_all add: calculate_total_def update_payment_status_def Let_def)

lemma calculate_total_frame [simp]:
  "pk (calculate_total now s) = pk s"
  "patient (calculate_total now s) = patient s"
  "bill_number (calculate_total now s) = bill_number s"
  "payment_method (calculate_total now s) = payment_method s"
  "billing_date (calculate_total now s) = billing_date s"
  "due_date (calculate_total now s) = due_date s"
  "bill_notes (calculate_total now s) = bill_notes s"
  "created_at (calculate_total now s) = created_at s"
  by (simp_all add: calculate_total_def update_payment_status_def Let_def)

lemma calculate_total_status:
  "payment_status (calculate_total now s) =
     (if amount_paid s = 0 then ''PENDING''
      else if amount_paid s \<ge> computed_total s then ''PAID''
      else if amount_paid s > 0 then ''PARTIAL'' else ''PENDING'')"
  by (simp add: calculate_total_def update_payment_status_def computed_total_def Let_def max_def)

lemma calculate_total_payment_date:
  "payment_date (calculate_total now s) =
     (if amount_paid s \<noteq> 0 \<and> amount_paid s \<ge> computed_total s then Some now else payment_date s)"
  by (simp add: calculate_total_def update_payment_status_def computed_total_def Let_def max_def)

lemma computed_total_calculate_total [simp]:
  "computed_total (calculate_total now s) = computed_total s"
  by (simp add: computed_total_def)

lemma calculate_total_eq:
  "calculate_total now s =
     s\<lparr>total_amount := computed_total s,
       balance_due := computed_total s - amount_paid s,
       payment_status := (if amount_paid s = 0 then ''PENDING''
                          else if amount_paid s \<ge> computed_total s then ''PAID''
                          else if amount_paid s > 0 then ''PARTIAL'' else ''PENDING''),
       payment_date := (if amount_paid s \<noteq> 0 \<and> amount_paid s \<ge> computed_total s
                        then Some now else payment_date s)\<rparr>"
proof -
  let ?sum = "consultation_fee s + medicine_cost s + lab_cost s + other_charges s - discount s + tax_amount s"
  show ?thesis
  proof (cases "?sum < 0")
    case True
    then have T: "computed_total s = 0" by (simp add: computed_total_def)
    show ?thesis
      unfolding T using True
      by (cases "amount_paid s = 0"; cases "0 \<le> amount_paid s")
         (simp_all add: calculate_total_def update_payment_status_def Let_def)
  next
    case False
    then have T: "computed_total s = ?sum" by (simp add: computed_total_def)
    show ?thesis
      unfolding T using False
      by (cases "amount_paid s = 0"; cases "?sum \<le> amount_paid s"; cases "0 < amount_paid s")
         (simp_all add: calculate_total_def update_payment_status_def Let_def)
  qed
qed

lemma calculate_total_idem:
  "calculate_total now (calculate_total now s) = calculate_total now s"
proof -
  have "calculate_total now (calculate_total now s) =
        (calculate_total now s)\<lparr>total_amount := computed_total s,
          balance_due := computed_total s - amount_paid s,
          payment_status := payment_status (calculate_total now s),
          payment_date := (if amount_paid s \<noteq> 0 \<and> amount_paid s \<ge> computed_total s
                           then Some now else payment_date (calculate_total now s))\<rparr>"
    by (subst calculate_total_eq [of now "calculate_total now s"])
       (simp add: calculate_total_status)
  also have "\<dots> = calculate_total now s"
    by (simp add: calculate_total_payment_date)
  finally show ?thesis .
qed

lemma fresh_pk_bound: "Some n \<in> set ks \<Longrightarrow> n < fresh_pk ks"
  unfolding fresh_pk_def by (induction ks) (auto simp: less_Suc_eq_le max_def)

lemma fresh_pk_notin: "Some (fresh_pk ks) \<notin> set ks"
  using fresh_pk_bound by blast

lemma find_append_last: "\<forall>y\<in>set xs. \<not> P y \<Longrightarrow> P x \<Longrightarrow> find P (xs @ [x]) = Some x"
  by (induction xs) auto

lemma find_map_replace:
  "list_ex P xs \<Longrightarrow> P s \<Longrightarrow> find P (map (\<lambda>r. if P r then s else r) xs) = Some s"
  by (induction xs) auto

lemma Billing_super_save_D:
  assumes "Billing_super_save db s = (b, db')"
  shows "b = s\<lparr>pk := pk b\<rparr>"
    and "\<exists>k. pk b = Some k \<and> Billing_get db' k = Some b"
    and "pk s \<noteq> None \<Longrightarrow> pk b = pk s"
    and "patients db' = patients db" and "staffs db' = staffs db" and "appointments db' = appointments db"
proof -
  show "b = s\<lparr>pk := pk b\<rparr>" "pk s \<noteq> None \<Longrightarrow> pk b = pk s"
    "patients db' = patients db" "staffs db' = staffs db" "appointments db' = appointments db"
    using assms by (auto simp: Billing_super_save_def Let_def split: option.splits if_splits)
  show "\<exists>k. pk b = Some k \<and> Billing_get db' k = Some b"
  proof (cases "pk s")
    case None
    have "Some (fresh_pk (map pk (billings db))) \<notin> set (map pk (billings db))"
      by (rule fresh_pk_notin)
    then have "\<forall>y\<in>set (billings db). \<not> pk y = Some (fresh_pk (map pk (billings db)))"
      by force
    then show ?thesis
      using assms None
      by (auto simp: Billing_super_save_def Let_def Billing_get_def find_append_last)
  next
    case (Some k)
    show ?thesis
    proof (cases "list_ex (\<lambda>r. pk r = Some k) (billings db)")
      case True
      then show ?thesis
        using assms Some find_map_replace [of "\<lambda>r. pk r = Some k" "billings db" s]
        by (auto simp: Billing_super_save_def Billing_get_def)
    next
      case False
      then have "\<forall>y\<in>set (billings db). \<not> pk y = Some k"
        by (simp add: list_ex_iff)
      then show ?thesis
        using assms Some False
        by (auto simp: Billing_super_save_def Billing_get_def find_append_last)
    qed
  qed
qed

lemma Billing_full_clean_Inr_iff:
  "Billing_full_clean db s = Inr u \<longleftrightarrow>
     (Billing_clean_fields db s = [] \<and> Billing_clean s = Inr () \<and> Billing_validate_unique db [] s = [])"
  using Billing_clean_cases [of s]
  by (auto simp: Billing_full_clean_def Let_def)


lemma due_date_update_same: "due_date (x::billing) = Some a \<Longrightarrow> x\<lparr>due_date := Some a\<rparr> = x"
  by (cases x) simp

lemma Billing_save_Inr_D:
  assumes "Billing_save now db self = Inr (b, db')"
  shows "\<exists>s dd. Billing_full_clean db s = Inr () \<and> Billing_super_save db s = (b, db') \<and>
           s = (calculate_total now
                  (self\<lparr>bill_number := (if bill_number self = [] then generate_bill_number now db
                                           else bill_number self)\<rparr>))\<lparr>due_date := Some dd\<rparr> \<and>
           (case due_date self of None \<Rightarrow> add_days (billing_date self) 15 = Inr dd | Some d \<Rightarrow> d = dd)"
proof (cases "bill_number self = []")
  case True
  show ?thesis
    using assms True
    by (cases "due_date self")
       (auto simp: Billing_save_def Let_def due_date_update_same split: sum.splits)
next
  case False
  show ?thesis
    using assms False
    by (cases "due_date self")
       (auto simp: Billing_save_def Let_def due_date_update_same split: sum.splits)
qed

lemma computed_total_bill_number [simp]:
  "computed_total (s\<lparr>bill_number := n\<rparr>) = computed_total s"
  by (simp add: computed_total_def)

lemma Billing_save_Inr_fields:
  assumes "Billing_save now db self = Inr (b, db')"
  shows "total_amount b = computed_total self"
    and "balance_due b = computed_total self - amount_paid self"
    and "amount_paid b = amount_paid self"
    and "amount_paid b \<le> total_amount b"
    and "bill_number b = (if bill_number self = [] then generate_bill_number now db else bill_number self)"
    and "discount b = discount self"
    and "bill_notes b = bill_notes self"
    and "payment_method b = payment_method self"
    and "billing_date b = billing_date self"
    and "payment_status b = payment_status (calculate_total now self)"
    and "persisted db' b"
    and "case due_date self of
           None \<Rightarrow> (\<exists>d. add_days (billing_date self) 15 = Inr d \<and> due_date b = Some d)
         | Some d \<Rightarrow> due_date b = Some d"
proof -
  obtain s dd where fc: "Billing_full_clean db s = Inr ()"
    and ss: "Billing_super_save db s = (b, db')"
    and s: "s = (calculate_total now
                  (self\<lparr>bill_number := (if bill_number self = [] then generate_bill_number now db
                                           else bill_number self)\<rparr>))\<lparr>due_date := Some dd\<rparr>"
    and dd: "case due_date self of None \<Rightarrow> add_days (billing_date self) 15 = Inr dd | Some d \<Rightarrow> d = dd"
    using Billing_save_Inr_D [OF assms] by blast
  have b: "b = s\<lparr>pk := pk b\<rparr>"
    by (rule Billing_super_save_D(1) [OF ss])
  have le: "amount_paid s \<le> total_amount s"
    using fc by (simp add: Billing_full_clean_Inr_iff Billing_clean_Inr_iff)
  have fs: "total_amount s = computed_total self" "amount_paid s = amount_paid self"
    "balance_due s = computed_total self - amount_paid self"
    "bill_number s = (if bill_number self = [] then generate_bill_number now db else bill_number self)"
    "discount s = discount self" "bill_notes s = bill_notes self" "payment_method s = payment_method self"
    "billing_date s = billing_date self" "due_date s = Some dd"
    by (simp_all add: s)
  have st: "payment_status s = payment_status (calculate_total now self)"
    by (simp add: s calculate_total_status)
  show "total_amount b = computed_total self"
    by (subst b) (simp add: fs)
  show "balance_due b = computed_total self - amount_paid self"
    by (subst b) (simp add: fs)
  show "amount_paid b = amount_paid self"
    by (subst b) (simp add: fs)
  show "amount_paid b \<le> total_amount b"
    using le by (subst b, subst (2) b) simp
  show "bill_number b = (if bill_number self = [] then generate_bill_number now db else bill_number self)"
    by (subst b) (simp add: fs)
  show "discount b = discount self"
    by (subst b) (simp add: fs)
  show "bill_notes b = bill_notes self"
    by (subst b) (simp add: fs)
  show "payment_method b = payment_method self"
    by (subst b) (simp add: fs)
  show "billing_date b = billing_date self"
    by (subst b) (simp add: fs)
  show "payment_status b = payment_status (calculate_total now self)"
    by (subst b) (simp add: st)
  show "persisted db' b"
    using Billing_super_save_D(2) [OF ss] by (auto simp: persisted_def)
  have "due_date b = Some dd"
    by (subst b) (simp add: fs)
  then show "case due_date self of
           None \<Rightarrow> (\<exists>d. add_days (billing_date self) 15 = Inr d \<and> due_date b = Some d)
         | Some d \<Rightarrow> due_date b = Some d"
    using dd by (simp split: option.splits)
qed

lemma Billing_save_existing:
  assumes "bill_number self \<noteq> []" and "due_date self = Some d"
  shows "Billing_save now db self =
           (case Billing_full_clean db (calculate_total now self) of
              Inl e \<Rightarrow> Inl e
            | Inr u \<Rightarrow> Inr (Billing_super_save db (calculate_total now self)))"
  using assms by (simp add: Billing_save_def Let_def)

lemma Billing_save_new:
  assumes "bill_number self = []" and "due_date self = None"
    and "add_days (billing_date self) 15 = Inr dd"
  shows "Billing_save now db self =
           (case Billing_full_clean db
                   ((calculate_total now (self\<lparr>bill_number := generate_bill_number now db\<rparr>))\<lparr>due_date := Some dd\<rparr>) of
              Inl e \<Rightarrow> Inl e
            | Inr u \<Rightarrow> Inr (Billing_super_save db
                   ((calculate_total now (self\<lparr>bill_number := generate_bill_number now db\<rparr>))\<lparr>due_date := Some dd\<rparr>)))"
  using assms by (simp add: Billing_save_def Let_def)

lemma funpow15: "(f ^^ 15) x = f (f (f (f (f (f (f (f (f (f (f (f (f (f (f x))))))))))))))"
  by (simp add: eval_nat_numeral)

lemma add_days_example:
  "add_days \<lparr>year = 2026, month = 11, day = 4\<rparr> 15 = Inr \<lparr>year = 2026, month = 11, day = 19\<rparr>"
  by (simp add: add_days_def funpow15 next_day_def days_in_month_def)

lemma strftime_example: "strftime_Ymd \<lparr>year = 2026, month = 11, day = 4\<rparr> = ''20261104''"
  by code_simp

lemma format_04d_example: "format_04d (Suc 0) = ''0001''" "format_04d (Suc (Suc 0)) = ''0002''"
  by code_simp+

lemma generate_bill_number_db0: "generate_bill_number now0 db0 = ''BILL-20261104-0001''"
  by (simp add: generate_bill_number_def now0_def db0_def strftime_example format_04d_example)


lemma bill1_eq:
  "bill1 = \<lparr>pk = Some 1, patient = 1, bill_number = ''BILL-20261104-0001'', consultation_fee = 30000,
             medicine_cost = 15000, lab_cost = 0, other_charges = 0, discount = 5000, tax_amount = 2000,
             total_amount = 42000, amount_paid = 0, balance_due = 42000, payment_status = ''PENDING'',
             payment_method = None, billing_date = \<lparr>year = 2026, month = 11, day = 4\<rparr>,
             due_date = Some \<lparr>year = 2026, month = 11, day = 19\<rparr>, payment_date = None,
             bill_notes = [], created_at = now0\<rparr>"
  by (simp add: bill1_def bill0_def)

lemma save_bill0: "Billing_save now0 db0 bill0 = Inr (bill1, db1)"
proof -
  have b: "bill_number bill0 = []" "due_date bill0 = None"
    "add_days (billing_date bill0) 15 = Inr \<lparr>year = 2026, month = 11, day = 19\<rparr>"
    by (simp_all add: bill0_def add_days_example)
  have s: "(calculate_total now0 (bill0\<lparr>bill_number := generate_bill_number now0 db0\<rparr>))
             \<lparr>due_date := Some \<lparr>year = 2026, month = 11, day = 19\<rparr>\<rparr> = bill1\<lparr>pk := None\<rparr>"
    by (simp add: generate_bill_number_db0 calculate_total_eq computed_total_def bill0_def bill1_def)
  have f: "Billing_clean_fields db0 (bill1\<lparr>pk := None\<rparr>) = []"
    by (simp add: bill1_eq Billing_clean_fields_def decimal_errors_def decimal_ok_def
        PAYMENT_STATUS_CHOICES_def db0_def)
  have c: "Billing_clean (bill1\<lparr>pk := None\<rparr>) = Inr ()"
    by (simp add: Billing_clean_Inr_iff bill1_eq)
  have u: "Billing_validate_unique db0 [] (bill1\<lparr>pk := None\<rparr>) = []"
    by (simp add: Billing_validate_unique_def db0_def)
  have fc: "Billing_full_clean db0 (bill1\<lparr>pk := None\<rparr>) = Inr ()"
    using f c u by (simp add: Billing_full_clean_Inr_iff)
  have ss: "Billing_super_save db0 (bill1\<lparr>pk := None\<rparr>) = (bill1, db1)"
    by (simp add: Billing_super_save_def fresh_pk_def bill1_eq db1_def db0_def Let_def)
  show ?thesis
    by (simp add: Billing_save_new [OF b] s fc ss)
qed



lemma Billing_save_eval:
  assumes "bill_number x \<noteq> []" and "due_date x = Some d"
    and "calculate_total now x = s"
    and "Billing_clean_fields db s = []" and "Billing_clean s = Inr ()"
    and "Billing_validate_unique db [] s = []"
    and "Billing_super_save db s = r"
  shows "Billing_save now db x = Inr r"
    and "Billing_save now db (calculate_total now x) = Inr r"
proof -
  have fc: "Billing_full_clean db s = Inr ()"
    using assms(4-6) by (simp add: Billing_full_clean_Inr_iff)
  show "Billing_save now db x = Inr r"
    by (simp add: Billing_save_existing [OF assms(1,2)] assms(3) fc assms(7))
  have "bill_number (calculate_total now x) \<noteq> []" "due_date (calculate_total now x) = Some d"
    using assms(1,2) by simp_all
  moreover have "calculate_total now (calculate_total now x) = s"
    using calculate_total_idem [of now x] by (simp add: assms(3))
  ultimately show "Billing_save now db (calculate_total now x) = Inr r"
    by (simp add: Billing_save_existing fc assms(7))
qed



lemma resave_bill1: "Billing_save now0 db1 bill1 = Inr (bill1, db1)"
proof (rule Billing_save_eval(1))
  show "bill_number bill1 \<noteq> []" "due_date bill1 = Some \<lparr>year = 2026, month = 11, day = 19\<rparr>"
    by (simp_all add: bill1_eq)
  show "calculate_total now0 bill1 = bill1"
    by (simp add: calculate_total_eq computed_total_def bill1_eq)
  show "Billing_clean_fields db1 bill1 = []"
    by (simp add: bill1_eq Billing_clean_fields_def decimal_errors_def decimal_ok_def
        PAYMENT_STATUS_CHOICES_def db1_def db0_def)
  show "Billing_clean bill1 = Inr ()"
    by (simp add: Billing_clean_Inr_iff bill1_eq)
  show "Billing_validate_unique db1 [] bill1 = []"
    by (simp add: Billing_validate_unique_def db1_def db0_def)
  show "Billing_super_save db1 bill1 = (bill1, db1)"
    by (simp add: Billing_super_save_def db1_def db0_def bill1_eq)
qed













lemma save_overpaid_bill0:
  "Billing_save now0 db0 (bill0\<lparr>amount_paid := 50000\<rparr>) =
     Inl (ValidationError [(''amount_paid'', ''Amount paid cannot exceed total amount'')])"
proof -
  have b: "bill_number (bill0\<lparr>amount_paid := 50000\<rparr>) = []" "due_date (bill0\<lparr>amount_paid := 50000\<rparr>) = None"
    "add_days (billing_date (bill0\<lparr>amount_paid := 50000\<rparr>)) 15 = Inr \<lparr>year = 2026, month = 11, day = 19\<rparr>"
    by (simp_all add: bill0_def add_days_example)
  have s: "(calculate_total now0 (bill0\<lparr>amount_paid := 50000, bill_number := generate_bill_number now0 db0\<rparr>))
             \<lparr>due_date := Some \<lparr>year = 2026, month = 11, day = 19\<rparr>\<rparr>
           = bill1\<lparr>pk := None, amount_paid := 50000, balance_due := - 8000, payment_status := ''PAID'',
                   payment_date := Some now0\<rparr>"
    by (simp add: generate_bill_number_db0 calculate_total_eq computed_total_def bill0_def bill1_def)
  have f: "Billing_clean_fields db0 (bill1\<lparr>pk := None, amount_paid := 50000, balance_due := - 8000,
              payment_status := ''PAID'', payment_date := Some now0\<rparr>) = []"
    by (simp add: bill1_eq Billing_clean_fields_def decimal_errors_def decimal_ok_def
        PAYMENT_STATUS_CHOICES_def db0_def)
  have c: "Billing_clean (bill1\<lparr>pk := None, amount_paid := 50000, balance_due := - 8000,
              payment_status := ''PAID'', payment_date := Some now0\<rparr>)
           = Inl (ValidationError [(''amount_paid'', ''Amount paid cannot exceed total amount'')])"
    by (simp add: Billing_clean_def bill1_eq)
  have u: "Billing_validate_unique db0 ex (bill1\<lparr>pk := None, amount_paid := 50000, balance_due := - 8000,
              payment_status := ''PAID'', payment_date := Some now0\<rparr>) = []" for ex
    by (simp add: Billing_validate_unique_def db0_def)
  have fc: "Billing_full_clean db0 (bill1\<lparr>pk := None, amount_paid := 50000, balance_due := - 8000,
              payment_status := ''PAID'', payment_date := Some now0\<rparr>)
           = Inl (ValidationError [(''amount_paid'', ''Amount paid cannot exceed total amount'')])"
    by (simp add: Billing_full_clean_def Let_def f c u)
  show ?thesis
    using s by (simp add: Billing_save_new [OF b] fc)
qed


subsection \<open>Bill number and due date\<close>







text \<open>
  Claim C10. A save of a bill without a due date that succeeds stores the bill with the
  fifteenth day after its billing date as due date; a bill that has a due date keeps it.
\<close>

theorem C10_due_date:
  assumes "Billing_save now db self = Inr (b, db')"
  shows "(due_date self = None \<longrightarrow> due_date b = Some ((next_day ^^ 15) (billing_date self))) \<and>
         (\<forall>d. due_date self = Some d \<longrightarrow> due_date b = Some d) \<and>
         billing_date b = billing_date self \<and> persisted db' b"
proof -
  have "case due_date self of
           None \<Rightarrow> (\<exists>d. add_days (billing_date self) 15 = Inr d \<and> due_date b = Some d)
         | Some d \<Rightarrow> due_date b = Some d"
    by (rule Billing_save_Inr_fields(12) [OF assms])
  moreover have "add_days x 15 = Inr d \<Longrightarrow> d = (next_day ^^ 15) x" for x d
    by (auto simp: add_days_def Let_def split: if_splits)
  ultimately show ?thesis
    using Billing_save_Inr_fields(9,11) [OF assms] by (auto split: option.splits)
qed

theorem C10_witness:
  "Billing_save now0 db0 bill0 = Inr (bill1, db1) \<and> due_date bill0 = None \<and>
   due_date bill1 = Some ((next_day ^^ 15) (billing_date bill0)) \<and>
   billing_date bill0 = \<lparr>year = 2026, month = 11, day = 4\<rparr> \<and>
   due_date bill1 = Some \<lparr>year = 2026, month = 11, day = 19\<rparr> \<and>
   Billing_save now0 db1 bill1 = Inr (bill1, db1) \<and> persisted db1 bill1"
proof -
  have a: "due_date bill0 = None" "billing_date bill0 = \<lparr>year = 2026, month = 11, day = 4\<rparr>"
    by (simp_all add: bill0_def)
  have b: "due_date bill1 = Some \<lparr>year = 2026, month = 11, day = 19\<rparr>"
    by (simp add: bill1_eq)
  have c: "due_date bill1 = Some ((next_day ^^ 15) (billing_date bill0))" "persisted db1 bill1"
    using C10_due_date [OF save_bill0] a(1) by blast+
  show ?thesis
    by (intro conjI) (fact save_bill0 resave_bill1 a b c)+
qed

subsection \<open>Payments and discounts on a stored bill\<close>




























section \<open>Properties of the appointment scheduler\<close>

subsection \<open>Auxiliary facts\<close>

lemma map_of_set_if:
  "map_of (set_if c k v errors) q = (if c \<and> q = k then Some v else map_of errors q)"
  by (simp add: set_if_def update_conv')

lemma distinct_set_if: "distinct (map fst errors) \<Longrightarrow> distinct (map fst (set_if c k v errors))"
  by (simp add: set_if_def distinct_update)

lemma distinct_clean_errors: "distinct (map fst (Appointment_clean_errors now db self doc cr pat))"
  by (simp add: Appointment_clean_errors_def Let_def distinct_set_if)

lemma clean_errors_mem:
  "e \<in> set (Appointment_clean_errors now db self doc cr pat) \<longleftrightarrow>
     map_of (Appointment_clean_errors now db self doc cr pat) (fst e) = Some (snd e)"
  using map_of_eq_Some_iff [OF distinct_clean_errors, of now db self doc cr pat "fst e" "snd e"]
  by simp


lemma clean_errors_patient:
  "map_of (Appointment_clean_errors now db self doc cr pat) ''patient'' =
     (if \<not> is_active pat then Some ''Cannot schedule appointment for inactive patient''
      else if length (daily_appointments db self) \<ge> 3
      then Some ''Patient cannot have more than 3 appointments per day'' else None)"
  by (simp add: Appointment_clean_errors_def Let_def map_of_set_if)




lemma map_of_None_iff_key: "map_of xs k = None \<longleftrightarrow> k \<notin> set (map fst xs)"
  by (simp add: map_of_eq_None_iff)

lemma Appointment_full_clean_eval:
  assumes "find (\<lambda>s. staff_pk s = doctor self) (staffs db) = Some doc"
    and "find (\<lambda>p. patient_pk p = appt_patient self) (patients db) = Some pat"
    and "case created_by self of None \<Rightarrow> cr = None
         | Some c \<Rightarrow> cr \<noteq> None \<and> find (\<lambda>s. staff_pk s = c) (staffs db) = cr"
    and "Appointment_clean_fields db self = fe"
    and "Appointment_clean_errors now db self doc cr pat = ce"
    and "Appointment_validate_unique db (filter (\<lambda>name. name \<noteq> ''__all__'') (map fst (fe @ ce))) self = ue"
  shows "Appointment_full_clean now db self =
           (if fe @ ce @ ue \<noteq> [] then Inl (ValidationError (fe @ ce @ ue)) else Inr ())"
proof -
  have cl: "Appointment_clean now db self = (if ce \<noteq> [] then Inl (ValidationError ce) else Inr ())"
  proof (cases "created_by self")
    case None
    then show ?thesis
      using assms(1,2,3,5) by (simp add: Appointment_clean_def Let_def)
  next
    case (Some c)
    then obtain r where "cr = Some r" "find (\<lambda>s. staff_pk s = c) (staffs db) = Some r"
      using assms(3) by auto
    then show ?thesis
      using Some assms(1,2,5) by (simp add: Appointment_clean_def Let_def)
  qed
  show ?thesis
  proof (cases "ce = []")
    case True
    then show ?thesis
      using cl assms(4,6) by (auto simp: Appointment_full_clean_def Let_def)
  next
    case False
    then show ?thesis
      using cl assms(4,6) by (auto simp: Appointment_full_clean_def Let_def)
  qed
qed

lemma refs_existE:
  assumes "refs_exist db self"
  obtains doc pat cr where
    "find (\<lambda>s. staff_pk s = doctor self) (staffs db) = Some doc"
    "find (\<lambda>p. patient_pk p = appt_patient self) (patients db) = Some pat"
    "case created_by self of None \<Rightarrow> cr = None
     | Some c \<Rightarrow> cr \<noteq> None \<and> find (\<lambda>s. staff_pk s = c) (staffs db) = cr"
proof -
  obtain doc pat where d: "find (\<lambda>s. staff_pk s = doctor self) (staffs db) = Some doc"
    and p: "find (\<lambda>p. patient_pk p = appt_patient self) (patients db) = Some pat"
    using assms by (auto simp: refs_exist_def)
  show thesis
  proof (cases "created_by self")
    case None
    then show ?thesis using that [of doc pat None] d p by simp
  next
    case (Some c)
    then show ?thesis
      using that [of doc pat "find (\<lambda>s. staff_pk s = c) (staffs db)"] d p assms
      by (simp add: refs_exist_def)
  qed
qed

lemma Appointment_save_Inl_iff:
  "Appointment_save now db self = Inl e \<longleftrightarrow> Appointment_full_clean now db self = Inl e"
  by (simp add: Appointment_save_def Let_def split: sum.splits)

lemma has_error_save:
  "has_error (Appointment_save now db self) e = has_error (Appointment_full_clean now db self) e"
  by (simp add: Appointment_save_def Let_def has_error_def split: sum.splits)

lemma is_validation_error_save:
  "is_validation_error (Appointment_save now db self) =
   is_validation_error (Appointment_full_clean now db self)"
  by (simp add: Appointment_save_def Let_def is_validation_error_def split: sum.splits)

lemma clean_fields_keys:
  "(''__all__'', v) \<notin> set (Appointment_clean_fields db self)"
  "(''appointment_date'', v) \<notin> set (Appointment_clean_fields db self)"
  "(''appointment_time'', v) \<notin> set (Appointment_clean_fields db self)"
  "(''patient'', v) \<in> set (Appointment_clean_fields db self) \<Longrightarrow> v = ''invalid''"
  "(''doctor'', v) \<in> set (Appointment_clean_fields db self) \<longleftrightarrow>
     v = ''invalid'' \<and> \<not> list_ex (\<lambda>s. staff_pk s = doctor self \<and> role s = ''DOCTOR'') (staffs db)"
  by (auto simp: Appointment_clean_fields_def split: option.splits if_splits)


lemma validate_unique_cases:
  "Appointment_validate_unique db ex self = [] \<or>
   Appointment_validate_unique db ex self = [(''__all__'', ''unique_together'')]"
  by (simp add: Appointment_validate_unique_def)


subsection \<open>Claim C7: the slot of a doctor\<close>


lemma Appointment_save_eval_err:
  assumes "find (\<lambda>s. staff_pk s = doctor self) (staffs db) = Some doc"
    and "find (\<lambda>p. patient_pk p = appt_patient self) (patients db) = Some pat"
    and "case created_by self of None \<Rightarrow> cr = None
         | Some c \<Rightarrow> cr \<noteq> None \<and> find (\<lambda>s. staff_pk s = c) (staffs db) = cr"
    and "Appointment_clean_fields db self = fe"
    and "Appointment_clean_errors now db self doc cr pat = ce"
    and "Appointment_validate_unique db (filter (\<lambda>name. name \<noteq> ''__all__'') (map fst (fe @ ce))) self = ue"
    and "fe @ ce @ ue = es" and "es \<noteq> []"
  shows "Appointment_save now db self = Inl (ValidationError es)"
  using Appointment_full_clean_eval [OF assms(1-6)] assms(7,8)
  by (simp add: Appointment_save_Inl_iff)

lemma Appointment_save_eval_ok:
  assumes "find (\<lambda>s. staff_pk s = doctor self) (staffs db) = Some doc"
    and "find (\<lambda>p. patient_pk p = appt_patient self) (patients db) = Some pat"
    and "case created_by self of None \<Rightarrow> cr = None
         | Some c \<Rightarrow> cr \<noteq> None \<and> find (\<lambda>s. staff_pk s = c) (staffs db) = cr"
    and "Appointment_clean_fields db self = []"
    and "Appointment_clean_errors now db self doc cr pat = []"
    and "Appointment_validate_unique db [] self = []"
    and "\<not> falsy (estimated_duration self)"
    and "Appointment_super_save db self = r"
  shows "Appointment_save now db self = Inr r"
proof -
  have "Appointment_full_clean now db self = Inr ()"
    using Appointment_full_clean_eval [OF assms(1-5), of "[]"] assms(6) by simp
  then show ?thesis
    using assms(7,8) by (simp add: Appointment_save_def Let_def)
qed

lemma appt0_eq:
  "appt0 = \<lparr>appt_pk = None, appt_patient = 1, doctor = 1,
      appointment_date = \<lparr>year = 2026, month = 11, day = 5\<rparr>,
      appointment_time = \<lparr>hour = 9, minute = 0, second = 0\<rparr>, purpose = ''Fever and cough'',
      status = ''SCHEDULED'', priority = ''LOW'', created_by = Some 2,
      estimated_duration = Some 30, actual_duration = None,
      check_in_time = None, check_out_time = None\<rparr>"
  by (simp add: appt0_def Appointment_init_def)

lemma appt1_eq:
  "appt1 = \<lparr>appt_pk = Some 1, appt_patient = 1, doctor = 1,
      appointment_date = \<lparr>year = 2026, month = 11, day = 5\<rparr>,
      appointment_time = \<lparr>hour = 9, minute = 0, second = 0\<rparr>, purpose = ''Fever and cough'',
      status = ''SCHEDULED'', priority = ''LOW'', created_by = Some 2,
      estimated_duration = Some 30, actual_duration = None,
      check_in_time = None, check_out_time = None\<rparr>"
  by (simp add: appt1_def appt0_eq)

lemma appt_c_eq:
  "appt_c = \<lparr>appt_pk = Some 1, appt_patient = 1, doctor = 1,
      appointment_date = \<lparr>year = 2026, month = 11, day = 5\<rparr>,
      appointment_time = \<lparr>hour = 9, minute = 0, second = 0\<rparr>, purpose = ''Fever and cough'',
      status = ''CANCELLED'', priority = ''LOW'', created_by = Some 2,
      estimated_duration = Some 30, actual_duration = None,
      check_in_time = None, check_out_time = None\<rparr>"
  by (simp add: appt_c_def appt1_eq)

lemmas eval_clean_errors =
  Appointment_clean_errors_def Let_def set_if_def date_lt_def add_months_def days_in_month_def
  time_le_def conflicting_appointments_def daily_appointments_def ACTIVE_STATUSES_def now0_def

lemmas eval_clean_fields =
  Appointment_clean_fields_def STATUS_CHOICES_def PRIORITY_CHOICES_def

lemma save_appt0: "Appointment_save now0 db0 appt0 = Inr (appt1, dbA1)"
proof (rule Appointment_save_eval_ok)
  show "find (\<lambda>s. staff_pk s = doctor appt0) (staffs db0) =
          Some \<lparr>staff_pk = 1, full_name = ''Asha Rao'', role = ''DOCTOR''\<rparr>"
    by (simp add: appt0_eq db0_def)
  show "find (\<lambda>p. patient_pk p = appt_patient appt0) (patients db0) = Some \<lparr>patient_pk = 1, is_active = True\<rparr>"
    by (simp add: appt0_eq db0_def)
  show "case created_by appt0 of
          None \<Rightarrow> Some \<lparr>staff_pk = 2, full_name = ''Ravi Nair'', role = ''RECEPTIONIST''\<rparr> = None
        | Some c \<Rightarrow> Some \<lparr>staff_pk = 2, full_name = ''Ravi Nair'', role = ''RECEPTIONIST''\<rparr> \<noteq> None \<and>
            find (\<lambda>s. staff_pk s = c) (staffs db0)
              = Some \<lparr>staff_pk = 2, full_name = ''Ravi Nair'', role = ''RECEPTIONIST''\<rparr>"
    by (simp add: appt0_eq db0_def)
  show "Appointment_clean_fields db0 appt0 = []"
    by (simp add: appt0_eq eval_clean_fields db0_def)
  show "Appointment_clean_errors now0 db0 appt0 \<lparr>staff_pk = 1, full_name = ''Asha Rao'', role = ''DOCTOR''\<rparr>
          (Some \<lparr>staff_pk = 2, full_name = ''Ravi Nair'', role = ''RECEPTIONIST''\<rparr>)
          \<lparr>patient_pk = 1, is_active = True\<rparr> = []"
    by (simp add: appt0_eq eval_clean_errors db0_def)
  show "Appointment_validate_unique db0 [] appt0 = []"
    by (simp add: Appointment_validate_unique_def db0_def)
  show "\<not> falsy (estimated_duration appt0)"
    by (simp add: appt0_eq falsy_def)
  show "Appointment_super_save db0 appt0 = (appt1, dbA1)"
    by (simp add: Appointment_super_save_def fresh_pk_def appt0_eq appt1_eq dbA1_def db0_def Let_def)
qed

lemma save_appt0_taken:
  "Appointment_save now0 dbA1 appt0 =
     Inl (ValidationError [(''__all__'', ''Doctor Asha Rao already has an appointment at this time''),
                           (''__all__'', ''unique_together'')])"
proof (rule Appointment_save_eval_err)
  let ?doc = "\<lparr>staff_pk = 1, full_name = ''Asha Rao'', role = ''DOCTOR''\<rparr>"
  let ?rec = "\<lparr>staff_pk = 2, full_name = ''Ravi Nair'', role = ''RECEPTIONIST''\<rparr>"
  let ?pat = "\<lparr>patient_pk = 1, is_active = True\<rparr>"
  show "find (\<lambda>s. staff_pk s = doctor appt0) (staffs dbA1) = Some ?doc"
    by (simp add: appt0_eq dbA1_def db0_def)
  show "find (\<lambda>p. patient_pk p = appt_patient appt0) (patients dbA1) = Some ?pat"
    by (simp add: appt0_eq dbA1_def db0_def)
  show "case created_by appt0 of None \<Rightarrow> Some ?rec = None
        | Some c \<Rightarrow> Some ?rec \<noteq> None \<and> find (\<lambda>s. staff_pk s = c) (staffs dbA1) = Some ?rec"
    by (simp add: appt0_eq dbA1_def db0_def)
  show "Appointment_clean_fields dbA1 appt0 = []"
    by (simp add: appt0_eq eval_clean_fields dbA1_def db0_def)
  show "Appointment_clean_errors now0 dbA1 appt0 ?doc (Some ?rec) ?pat
          = [(''__all__'', ''Doctor Asha Rao already has an appointment at this time'')]"
    by (simp add: appt0_eq appt1_eq eval_clean_errors conflict_message_def dbA1_def db0_def)
  show "Appointment_validate_unique dbA1
          (filter (\<lambda>name. name \<noteq> ''__all__'')
             (map fst ([] @ [(''__all__'', ''Doctor Asha Rao already has an appointment at this time'')])))
          appt0 = [(''__all__'', ''unique_together'')]"
    by (simp add: Appointment_validate_unique_def same_slot_def appt0_eq appt1_eq dbA1_def db0_def)
  show "[] @ [(''__all__'', ''Doctor Asha Rao already has an appointment at this time'')] @
          [(''__all__'', ''unique_together'')]
        = [(''__all__'', ''Doctor Asha Rao already has an appointment at this time''),
           (''__all__'', ''unique_together'')]"
    by simp
  show "[(''__all__'', ''Doctor Asha Rao already has an appointment at this time''),
         (''__all__'', ''unique_together'')] \<noteq> []"
    by simp
qed






subsection \<open>Claim C8: the daily limit of a patient\<close>

lemma limit_message_neq:
  "''Cannot schedule appointment for inactive patient'' \<noteq> ''Patient cannot have more than 3 appointments per day''"
  "''invalid'' \<noteq> ''Patient cannot have more than 3 appointments per day''"
  by simp_all

lemma daily_limit:
  assumes refs: "refs_exist db self"
  shows "length (daily_appointments db self) \<ge> 3 \<Longrightarrow> is_validation_error (Appointment_save now db self)"
    and "length (daily_appointments db self) \<ge> 3 \<Longrightarrow>
         find (\<lambda>p. patient_pk p = appt_patient self) (patients db) = Some q \<Longrightarrow> is_active q \<Longrightarrow>
         has_error (Appointment_save now db self)
           (''patient'', ''Patient cannot have more than 3 appointments per day'')"
    and "length (daily_appointments db self) < 3 \<Longrightarrow>
         \<not> has_error (Appointment_save now db self)
             (''patient'', ''Patient cannot have more than 3 appointments per day'')"
proof -
  obtain doc pat cr where d: "find (\<lambda>s. staff_pk s = doctor self) (staffs db) = Some doc"
    and p: "find (\<lambda>p. patient_pk p = appt_patient self) (patients db) = Some pat"
    and c: "case created_by self of None \<Rightarrow> cr = None
            | Some c \<Rightarrow> cr \<noteq> None \<and> find (\<lambda>s. staff_pk s = c) (staffs db) = cr"
    using refs by (rule refs_existE)
  define fe where "fe = Appointment_clean_fields db self"
  define ce where "ce = Appointment_clean_errors now db self doc cr pat"
  define ex where "ex = filter (\<lambda>name. name \<noteq> ''__all__'') (map fst (fe @ ce))"
  define ue where "ue = Appointment_validate_unique db ex self"
  have fc: "Appointment_full_clean now db self =
              (if fe @ ce @ ue \<noteq> [] then Inl (ValidationError (fe @ ce @ ue)) else Inr ())"
    using Appointment_full_clean_eval [OF d p c, of fe now ce ue]
    by (simp add: fe_def ce_def ue_def ex_def)
  have he: "has_error (Appointment_save now db self) e \<longleftrightarrow> e \<in> set fe \<or> e \<in> set ce \<or> e \<in> set ue" for e
    unfolding has_error_save fc by (auto simp: has_error_def)
  have ive: "is_validation_error (Appointment_save now db self) \<longleftrightarrow> fe @ ce @ ue \<noteq> []"
    unfolding is_validation_error_save fc by (simp add: is_validation_error_def)
  have ce_pat: "(''patient'', w) \<in> set ce \<longleftrightarrow>
                  (if \<not> is_active pat then w = ''Cannot schedule appointment for inactive patient''
                   else length (daily_appointments db self) \<ge> 3 \<and>
                        w = ''Patient cannot have more than 3 appointments per day'')" for w
    using clean_errors_mem [of "(''patient'', w)" now db self doc cr pat]
    by (auto simp: ce_def clean_errors_patient)
  show "is_validation_error (Appointment_save now db self)" if "length (daily_appointments db self) \<ge> 3"
  proof -
    have "\<exists>w. (''patient'', w) \<in> set ce"
      using that by (cases "is_active pat") (auto simp: ce_pat)
    then have "ce \<noteq> []" by auto
    then show ?thesis by (simp add: ive)
  qed
  show "has_error (Appointment_save now db self)
           (''patient'', ''Patient cannot have more than 3 appointments per day'')"
    if "length (daily_appointments db self) \<ge> 3"
      and "find (\<lambda>p. patient_pk p = appt_patient self) (patients db) = Some q" and "is_active q"
  proof -
    have "is_active pat" using that(2,3) p by simp
    then show ?thesis using that(1) by (simp add: he ce_pat)
  qed
  show "\<not> has_error (Appointment_save now db self)
             (''patient'', ''Patient cannot have more than 3 appointments per day'')"
    if "length (daily_appointments db self) < 3"
  proof -
    have "(''patient'', ''Patient cannot have more than 3 appointments per day'') \<notin> set ce"
      using that by (simp add: ce_pat)
    moreover have "(''patient'', ''Patient cannot have more than 3 appointments per day'') \<notin> set fe"
      using clean_fields_keys(4) [of "''Patient cannot have more than 3 appointments per day''" db self]
      by (auto simp: fe_def)
    moreover have "(''patient'', ''Patient cannot have more than 3 appointments per day'') \<notin> set ue"
      using validate_unique_cases [of db ex self] by (auto simp: ue_def)
    ultimately show ?thesis by (simp add: he)
  qed
qed

text \<open>
  Claim C8, as amended. For an appointment whose doctor, patient and creator exist: the
  appointments of the patient on the date of the appointment, other than its own row, are
  counted whatever their status. With three or more of them the save is rejected with a
  validation error, which carries the limit message when the patient is active; with fewer
  than three the error of a rejected save does not carry that message.
\<close>

theorem C8_daily_limit:
  assumes "refs_exist db self"
  shows "(length (filter (\<lambda>r. appt_patient r = appt_patient self \<and>
                              appointment_date r = appointment_date self \<and>
                              appt_pk r \<noteq> appt_pk self) (appointments db)) \<ge> 3 \<longrightarrow>
            is_validation_error (Appointment_save now db self) \<and>
            (\<forall>q. find (\<lambda>p. patient_pk p = appt_patient self) (patients db) = Some q \<and> is_active q \<longrightarrow>
                 has_error (Appointment_save now db self)
                   (''patient'', ''Patient cannot have more than 3 appointments per day''))) \<and>
         (length (filter (\<lambda>r. appt_patient r = appt_patient self \<and>
                              appointment_date r = appointment_date self \<and>
                              appt_pk r \<noteq> appt_pk self) (appointments db)) < 3 \<longrightarrow>
            \<not> has_error (Appointment_save now db self)
                (''patient'', ''Patient cannot have more than 3 appointments per day''))"
  using daily_limit [OF assms, where now = now] unfolding daily_appointments_def by blast

lemma save_appt4:
  "Appointment_save now0 db3c appt4 =
     Inl (ValidationError [(''patient'', ''Patient cannot have more than 3 appointments per day'')])"
proof (rule Appointment_save_eval_err)
  let ?doc = "\<lparr>staff_pk = 1, full_name = ''Asha Rao'', role = ''DOCTOR''\<rparr>"
  let ?rec = "\<lparr>staff_pk = 2, full_name = ''Ravi Nair'', role = ''RECEPTIONIST''\<rparr>"
  let ?pat = "\<lparr>patient_pk = 1, is_active = True\<rparr>"
  show "find (\<lambda>s. staff_pk s = doctor appt4) (staffs db3c) = Some ?doc"
    by (simp add: appt4_def Appointment_init_def db3c_def db0_def)
  show "find (\<lambda>p. patient_pk p = appt_patient appt4) (patients db3c) = Some ?pat"
    by (simp add: appt4_def Appointment_init_def db3c_def db0_def)
  show "case created_by appt4 of None \<Rightarrow> Some ?rec = None
        | Some c \<Rightarrow> Some ?rec \<noteq> None \<and> find (\<lambda>s. staff_pk s = c) (staffs db3c) = Some ?rec"
    by (simp add: appt4_def Appointment_init_def db3c_def db0_def)
  show "Appointment_clean_fields db3c appt4 = []"
    by (simp add: appt4_def Appointment_init_def eval_clean_fields db3c_def db0_def)
  show "Appointment_clean_errors now0 db3c appt4 ?doc (Some ?rec) ?pat
          = [(''patient'', ''Patient cannot have more than 3 appointments per day'')]"
    by (simp add: appt4_def Appointment_init_def appt_c_eq eval_clean_errors db3c_def db0_def)
  show "Appointment_validate_unique db3c
          (filter (\<lambda>name. name \<noteq> ''__all__'')
             (map fst ([] @ [(''patient'', ''Patient cannot have more than 3 appointments per day'')])))
          appt4 = []"
    by (simp add: Appointment_validate_unique_def same_slot_def appt4_def Appointment_init_def
        appt_c_eq db3c_def db0_def)
  show "[] @ [(''patient'', ''Patient cannot have more than 3 appointments per day'')] @ []
        = [(''patient'', ''Patient cannot have more than 3 appointments per day'')]"
    by simp
  show "[(''patient'', ''Patient cannot have more than 3 appointments per day'')] \<noteq> []"
    by simp
qed

text \<open>
  Claim C8 as stated fails: a patient whose three appointments of the day are all cancelled
  cannot book a fourth.
\<close>

theorem C8_counterexample:
  "length (appointments db3c) = 3 \<and> list_all (\<lambda>r. status r = ''CANCELLED'') (appointments db3c) \<and>
   list_all (\<lambda>r. appt_patient r = appt_patient appt4 \<and> appointment_date r = appointment_date appt4)
     (appointments db3c) \<and>
   Appointment_save now0 db3c appt4 =
     Inl (ValidationError [(''patient'', ''Patient cannot have more than 3 appointments per day'')])"
  by (simp add: save_appt4) (simp add: db3c_def appt_c_eq appt4_def Appointment_init_def)

theorem C8_witness:
  "refs_exist db3c appt4 \<and>
   length (filter (\<lambda>r. appt_patient r = appt_patient appt4 \<and> appointment_date r = appointment_date appt4 \<and>
                        appt_pk r \<noteq> appt_pk appt4) (appointments db3c)) \<ge> 3 \<and>
   is_validation_error (Appointment_save now0 db3c appt4) \<and>
   has_error (Appointment_save now0 db3c appt4)
     (''patient'', ''Patient cannot have more than 3 appointments per day'') \<and>
   refs_exist db0 appt0 \<and>
   length (filter (\<lambda>r. appt_patient r = appt_patient appt0 \<and> appointment_date r = appointment_date appt0 \<and>
                        appt_pk r \<noteq> appt_pk appt0) (appointments db0)) < 3 \<and>
   \<not> has_error (Appointment_save now0 db0 appt0)
       (''patient'', ''Patient cannot have more than 3 appointments per day'') \<and>
   Appointment_save now0 db0 appt0 = Inr (appt1, dbA1)"
proof -
  have r: "refs_exist db3c appt4" "refs_exist db0 appt0"
    by (simp_all add: refs_exist_def appt4_def Appointment_init_def appt0_eq db3c_def db0_def)
  have n: "length (filter (\<lambda>r. appt_patient r = appt_patient appt4 \<and>
                               appointment_date r = appointment_date appt4 \<and>
                               appt_pk r \<noteq> appt_pk appt4) (appointments db3c)) \<ge> 3"
    by (simp add: db3c_def appt_c_eq appt4_def Appointment_init_def)
  have m: "length (filter (\<lambda>r. appt_patient r = appt_patient appt0 \<and>
                               appointment_date r = appointment_date appt0 \<and>
                               appt_pk r \<noteq> appt_pk appt0) (appointments db0)) < 3"
    by (simp add: db0_def)
  have q: "find (\<lambda>p. patient_pk p = appt_patient appt4) (patients db3c) = Some \<lparr>patient_pk = 1, is_active = True\<rparr>"
    "is_active \<lparr>patient_pk = 1, is_active = True\<rparr>"
    by (simp_all add: appt4_def Appointment_init_def db3c_def db0_def)
  have a: "is_validation_error (Appointment_save now0 db3c appt4)"
    "has_error (Appointment_save now0 db3c appt4)
       (''patient'', ''Patient cannot have more than 3 appointments per day'')"
    using C8_daily_limit [OF r(1), of now0] n q by blast+
  have b: "\<not> has_error (Appointment_save now0 db0 appt0)
       (''patient'', ''Patient cannot have more than 3 appointments per day'')"
    using C8_daily_limit [OF r(2), of now0] m by blast
  show ?thesis
    by (intro conjI) (fact r n m a b save_appt0)+
qed

end
